theory Spec2Isabelle
  imports Main "HOL-Library.AList" "HOL-Library.Sublist"
begin

section \<open>Data model of hooks/lib/ios/xcodePreferences.js\<close>

text \<open>
  A JavaScript object with string keys is an association list: \<open>Object.keys\<close> and
  \<open>for ... in\<close> enumerate the keys in insertion order, \<open>obj[k]\<close> is \<open>map_of obj k\<close>
  (\<open>None\<close> for \<open>undefined\<close>) and \<open>obj[k] = v\<close> is \<open>AList.update k v obj\<close>, which
  overwrites in place or appends a new key at the end. (JavaScript enumerates keys that
  are array indices first; the identifiers of a project file are not, and no property
  below depends on the order of the keys.)
\<close>

type_synonym 'v obj = "(string \<times> 'v) list"

text \<open>
  The values of the \<open>XCBuildConfiguration\<close> section of a parsed project file are either
  strings (the \<open>..._comment\<close> entries) or references to configuration objects. The objects
  live in a store indexed by address, so that the shallow copy made by \<open>nonComments\<close>
  shares them with the section it was copied from.
\<close>

type_synonym addr = nat

datatype jsval = Str string | Ref addr

record XCBuildConfiguration =
  isa :: string
  buildSettings :: "string obj option"
  name :: string

record pbxProject =
  XCBuildConfiguration_section :: "jsval obj"
  objects :: "XCBuildConfiguration list"

datatype error =
    Error string
  | TypeError
  | ReferenceError string
  | ENOENT string
  | ENOTDIR string
  | ParseError string

definition IOS_DEPLOYMENT_TARGET :: string where
  "IOS_DEPLOYMENT_TARGET = ''8.0''"

definition IPHONEOS_DEPLOYMENT_TARGET :: string where
  "IPHONEOS_DEPLOYMENT_TARGET = ''IPHONEOS_DEPLOYMENT_TARGET''"

text \<open>\<open>COMMENT_KEY.test(k)\<close> for the regular expression \<open>/_comment$/\<close>: \<open>k\<close> ends in \<open>_comment\<close>.\<close>

definition COMMENT_KEY :: "string \<Rightarrow> bool" where
  "COMMENT_KEY k = suffix ''_comment'' k"

text \<open>JavaScript truthiness of an object lookup whose values are strings.\<close>

fun truthy :: "string option \<Rightarrow> bool" where
  "truthy None = False"
| "truthy (Some s) = (s \<noteq> [])"

section \<open>nonComments\<close>

text \<open>
  \<open>nonComments(obj)\<close>: a fresh object that receives, in key order, every entry of \<open>obj\<close>
  whose key fails \<open>COMMENT_KEY\<close>. The keys are those of \<open>obj\<close>, so the lookup
  \<open>obj[keys[i]]\<close> always finds a value.
\<close>

fun nonComments_loop :: "string list \<Rightarrow> 'v obj \<Rightarrow> 'v obj \<Rightarrow> 'v obj" where
  "nonComments_loop [] obj newObj = newObj"
| "nonComments_loop (k # keys) obj newObj =
     (if \<not> COMMENT_KEY k
      then (case map_of obj k of
              Some v \<Rightarrow> nonComments_loop keys obj (AList.update k v newObj)
            | None \<Rightarrow> nonComments_loop keys obj newObj)
      else nonComments_loop keys obj newObj)"

definition nonComments :: "'v obj \<Rightarrow> 'v obj" where
  "nonComments obj = nonComments_loop (map fst obj) obj []"

section \<open>The deployment-target loop of activateAssociativeDomains\<close>

text \<open>
  Lines 79 to 87, the body of the loop on one \<open>buildSettings\<close> object. The comparator is
  the external module \<open>node-version-compare\<close>, taken as the parameter \<open>compare\<close>; the
  flag is \<open>deploymentTargetIsUpdated\<close>.
\<close>

definition raiseTarget ::
  "(string \<Rightarrow> string \<Rightarrow> int) \<Rightarrow> string obj \<Rightarrow> bool \<Rightarrow> string obj \<times> bool" where
  "raiseTarget compare bs updated =
     (if truthy (map_of bs IPHONEOS_DEPLOYMENT_TARGET)
      then (case map_of bs IPHONEOS_DEPLOYMENT_TARGET of
              Some v \<Rightarrow>
                (if compare v IOS_DEPLOYMENT_TARGET = - 1
                 then (AList.update IPHONEOS_DEPLOYMENT_TARGET IOS_DEPLOYMENT_TARGET bs, True)
                 else (bs, updated))
            | None \<Rightarrow> (bs, updated))
      else (AList.update IPHONEOS_DEPLOYMENT_TARGET IOS_DEPLOYMENT_TARGET bs, True))"

text \<open>
  \<open>for (var config in configurations)\<close>, lines 76 to 88. \<open>configurations[config]\<close> is a
  string or a reference; reading \<open>.buildSettings\<close> of a string, or of an object without
  that field, gives \<open>undefined\<close>, and indexing \<open>undefined\<close> throws a \<open>TypeError\<close>. An
  address outside the store does not occur in a JavaScript object graph; the model
  answers it with the same error.
\<close>

fun forin_configurations ::
  "(string \<Rightarrow> string \<Rightarrow> int) \<Rightarrow> string list \<Rightarrow> jsval obj \<Rightarrow>
     XCBuildConfiguration list \<times> bool \<Rightarrow> error + XCBuildConfiguration list \<times> bool" where
  "forin_configurations compare [] configurations st = Inr st"
| "forin_configurations compare (config # rest) configurations (h, updated) =
     (case map_of configurations config of
        Some (Ref a) \<Rightarrow>
          (if a < length h
           then (case buildSettings (h ! a) of
                   Some bs \<Rightarrow>
                     (case raiseTarget compare bs updated of
                        (bs', updated') \<Rightarrow>
                          forin_configurations compare rest configurations
                            (h[a := (h ! a)\<lparr>buildSettings := Some bs'\<rparr>], updated'))
                 | None \<Rightarrow> Inl TypeError)
           else Inl TypeError)
      | Some (Str s) \<Rightarrow> Inl TypeError
      | None \<Rightarrow> Inl TypeError)"

text \<open>
  Lines 73 to 88: the section is filtered, the loop runs over the filtered copy, and the
  project is left with the mutated objects. The second component is
  \<open>deploymentTargetIsUpdated\<close>, which starts out \<open>undefined\<close> (falsy).
\<close>

definition pbxXCBuildConfigurationSection :: "pbxProject \<Rightarrow> jsval obj" where
  "pbxXCBuildConfigurationSection p = XCBuildConfiguration_section p"

definition raiseDeploymentTargets ::
  "(string \<Rightarrow> string \<Rightarrow> int) \<Rightarrow> pbxProject \<Rightarrow> error + pbxProject \<times> bool" where
  "raiseDeploymentTargets compare p =
     (let configurations = nonComments (pbxXCBuildConfigurationSection p) in
      case forin_configurations compare (map fst configurations) configurations
             (objects p, False) of
        Inl e \<Rightarrow> Inl e
      | Inr (h, updated) \<Rightarrow> Inr (p\<lparr>objects := h\<rparr>, updated))"

section \<open>The file system, the console and the external modules\<close>

text \<open>
  The hook sees the disk through \<open>fs.existsSync\<close>, \<open>fs.readdirSync\<close>, \<open>fs.statSync\<close>,
  the read inside \<open>parseSync\<close> and \<open>fs.writeFileSync\<close>. The disk maps a path to a file
  with its text or to a directory with its listing, in listing order. Every read and
  write of a descriptor and every console line is appended to \<open>events\<close>.
\<close>

datatype node = File string | Dir "string list"

datatype event = ReadFile string | WriteFile string string | ConsoleLog string

record world =
  files :: "node obj"
  events :: "event list"

text \<open>
  The modules the hook requires and that are not part of this repository:
  \<open>path.join\<close>, \<open>node-version-compare\<close>, and the parser and the serializer of the
  \<open>xcode\<close> module (\<open>parseSync\<close> applied to the text that was read, \<open>writeSync\<close>).
\<close>

record env =
  path_join :: "string \<Rightarrow> string \<Rightarrow> string"
  version_compare :: "string \<Rightarrow> string \<Rightarrow> int"
  xcode_parse :: "string \<Rightarrow> error + pbxProject"
  xcode_writeSync :: "pbxProject \<Rightarrow> string"

text \<open>
  The cordova context: \<open>context.opts.projectRoot\<close> and, when it is set,
  \<open>context.opts.cordova.project\<close> with its \<open>parseProjectFile(root).xcode\<close>.
\<close>

record cordova_context =
  projectRoot :: string
  cordova_project :: "(string \<Rightarrow> error + pbxProject) option"

definition existsSync :: "world \<Rightarrow> string \<Rightarrow> bool" where
  "existsSync w p = (map_of (files w) p \<noteq> None)"

definition readdirSync :: "world \<Rightarrow> string \<Rightarrow> error + string list" where
  "readdirSync w p =
     (case map_of (files w) p of
        Some (Dir entries) \<Rightarrow> Inr entries
      | Some (File txt) \<Rightarrow> Inl (ENOTDIR p)
      | None \<Rightarrow> Inl (ENOENT p))"

definition writeFileSync :: "string \<Rightarrow> string \<Rightarrow> world \<Rightarrow> world" where
  "writeFileSync p txt w =
     w\<lparr>files := AList.update p (File txt) (files w), events := events w @ [WriteFile p txt]\<rparr>"

definition console_log :: "string \<Rightarrow> world \<Rightarrow> world" where
  "console_log line w = w\<lparr>events := events w @ [ConsoleLog line]\<rparr>"

text \<open>
  \<open>directoryExists(path)\<close>: when \<open>statSync\<close> throws, the handler calls \<open>logMe\<close>, which
  this file never defines, so the handler itself throws a \<open>ReferenceError\<close>.
\<close>

definition directoryExists :: "world \<Rightarrow> string \<Rightarrow> error + bool" where
  "directoryExists w p =
     (case map_of (files w) p of
        Some (Dir entries) \<Rightarrow> Inr True
      | Some (File txt) \<Rightarrow> Inr False
      | None \<Rightarrow> Inl (ReferenceError ''logMe''))"

text \<open>
  \<open>path.basename(p, ext)\<close>: the last component of \<open>p\<close>, trailing separators ignored, without
  the extension \<open>ext\<close> when the component ends in it. The hook applies it to the entries of
  a directory listing.
\<close>

definition basename :: "string \<Rightarrow> string \<Rightarrow> string" where
  "basename p ext =
     (let f = rev (takeWhile (\<lambda>c. c \<noteq> CHR ''/'') (dropWhile (\<lambda>c. c = CHR ''/'') (rev p)))
      in if ext \<noteq> [] \<and> suffix ext f then take (length f - length ext) f else f)"

section \<open>activateAssociativeDomains\<close>

text \<open>
  Lines 65 to 71: the project comes from the cordova context when it offers one, and is
  read from \<open>projectPath\<close> and parsed otherwise.
\<close>

definition loadProject ::
  "env \<Rightarrow> cordova_context \<Rightarrow> string \<Rightarrow> world \<Rightarrow> (error + pbxProject) \<times> world" where
  "loadProject e ctx projectPath w =
     (case cordova_project ctx of
        Some parseProjectFile \<Rightarrow> (parseProjectFile (projectRoot ctx), w)
      | None \<Rightarrow>
          (case map_of (files w) projectPath of
             Some (File txt) \<Rightarrow> (xcode_parse e txt, w\<lparr>events := events w @ [ReadFile projectPath]\<rparr>)
           | Some (Dir entries) \<Rightarrow> (Inl (Error ''EISDIR''), w)
           | None \<Rightarrow> (Inl (ENOENT projectPath), w)))"

definition activateAssociativeDomains ::
  "env \<Rightarrow> cordova_context \<Rightarrow> string \<Rightarrow> world \<Rightarrow> (error + unit) \<times> world" where
  "activateAssociativeDomains e ctx projFolder w =
     (let projectPath = path_join e projFolder ''project.pbxproj'' in
      case loadProject e ctx projectPath w of
        (Inl err, w1) \<Rightarrow> (Inl err, w1)
      | (Inr pbxProject, w1) \<Rightarrow>
          (case raiseDeploymentTargets (version_compare e) pbxProject of
             Inl err \<Rightarrow> (Inl err, w1)
           | Inr (pbxProject', deploymentTargetIsUpdated) \<Rightarrow>
               (let w2 = (if deploymentTargetIsUpdated
                          then console_log (''IOS project now has deployment target set as: ''
                                            @ IOS_DEPLOYMENT_TARGET) w1
                          else w1)
                in (Inr (), writeFileSync projectPath (xcode_writeSync e pbxProject') w2))))"

section \<open>enableAssociativeDomainsCapability\<close>

text \<open>
  Lines 35 to 40, the \<open>forEach\<close> over the listing: every entry that matches
  \<open>/\.xcodeproj$/\<close> overwrites \<open>projFolder\<close> and \<open>projName\<close>.
\<close>

fun forEach_folder ::
  "(string \<Rightarrow> string \<Rightarrow> string) \<Rightarrow> string \<Rightarrow> string list \<Rightarrow>
     string option \<times> string option \<Rightarrow> string option \<times> string option" where
  "forEach_folder join iosFolder [] st = st"
| "forEach_folder join iosFolder (folder # rest) (projFolder, projName) =
     (if suffix ''.xcodeproj'' folder
      then forEach_folder join iosFolder rest
             (Some (join iosFolder folder), Some (basename folder ''.xcodeproj''))
      else forEach_folder join iosFolder rest (projFolder, projName))"

text \<open>Lines 32 to 41: both variables start as \<open>null\<close>; an empty listing skips the loop.\<close>

definition findProject ::
  "(string \<Rightarrow> string \<Rightarrow> string) \<Rightarrow> string \<Rightarrow> string list \<Rightarrow> string option \<times> string option" where
  "findProject join iosFolder data =
     (if data \<noteq> [] then forEach_folder join iosFolder data (None, None) else (None, None))"

text \<open>Lines 28 and 29.\<close>

definition iosFolder_of :: "env \<Rightarrow> cordova_context \<Rightarrow> world \<Rightarrow> string" where
  "iosFolder_of e ctx w =
     (let iosPlatform = path_join e (projectRoot ctx) ''platforms/ios/''
      in if existsSync w iosPlatform then iosPlatform else projectRoot ctx)"

text \<open>
  Lines 27 to 50. \<open>null\<close> and the empty string are the falsy values of \<open>projFolder\<close> and
  \<open>projName\<close>.
\<close>

definition notFound :: "string \<Rightarrow> error" where
  "notFound iosFolder = Error (''Could not find an .xcodeproj folder in: '' @ iosFolder)"

definition enableAssociativeDomainsCapability ::
  "env \<Rightarrow> cordova_context \<Rightarrow> world \<Rightarrow> (error + unit) \<times> world" where
  "enableAssociativeDomainsCapability e ctx w =
     (let iosFolder = iosFolder_of e ctx w in
      case readdirSync w iosFolder of
        Inl err \<Rightarrow> (Inl err, w)
      | Inr data \<Rightarrow>
          (case findProject (path_join e) iosFolder data of
             (Some projFolder, Some projName) \<Rightarrow>
               if projFolder = [] \<or> projName = []
               then (Inl (notFound iosFolder), w)
               else (case directoryExists w iosFolder of
                       Inl err \<Rightarrow> (Inl err, w)
                     | Inr isDir \<Rightarrow>
                         if isDir then activateAssociativeDomains e ctx projFolder w
                         else (Inr (), w))
           | _ \<Rightarrow> (Inl (notFound iosFolder), w)))"

section \<open>The version comparator\<close>

text \<open>
  Modelled from the spec: the comparator \<open>compare\<close> is the npm module
  \<open>node-version-compare\<close>, which is not among the sources. The specification describes it
  as dotted-numeric version ordering, each dot-separated segment compared numerically
  and not lexically, with \<open>-1\<close> for "strictly less". The model splits at the dots, reads
  the leading decimal digits of every segment as a number (none read as zero), and
  compares the sequences segment by segment, a missing segment counting as zero.
\<close>

fun split_on :: "char \<Rightarrow> string \<Rightarrow> string list" where
  "split_on sep [] = [[]]"
| "split_on sep (c # cs) =
     (if c = sep then [] # split_on sep cs
      else (case split_on sep cs of seg # segs \<Rightarrow> (c # seg) # segs | [] \<Rightarrow> [[c]]))"

definition digit :: "char \<Rightarrow> nat option" where
  "digit = map_of
     [(CHR ''0'', 0), (CHR ''1'', 1), (CHR ''2'', 2), (CHR ''3'', 3), (CHR ''4'', 4),
      (CHR ''5'', 5), (CHR ''6'', 6), (CHR ''7'', 7), (CHR ''8'', 8), (CHR ''9'', 9)]"

fun segment_value :: "nat \<Rightarrow> string \<Rightarrow> nat" where
  "segment_value n [] = n"
| "segment_value n (c # cs) =
     (case digit c of Some d \<Rightarrow> segment_value (10 * n + d) cs | None \<Rightarrow> n)"

fun compare_segments :: "nat list \<Rightarrow> nat list \<Rightarrow> int" where
  "compare_segments [] [] = 0"
| "compare_segments (x # xs) [] = (if 0 < x then 1 else compare_segments xs [])"
| "compare_segments [] (y # ys) = (if 0 < y then - 1 else compare_segments [] ys)"
| "compare_segments (x # xs) (y # ys) =
     (if x < y then - 1 else if y < x then 1 else compare_segments xs ys)"

definition compare :: "string \<Rightarrow> string \<Rightarrow> int" where
  "compare v1 v2 =
     compare_segments (map (segment_value 0) (split_on CHR ''.'' v1))
                      (map (segment_value 0) (split_on CHR ''.'' v2))"






section \<open>Observations used in the statements\<close>

text \<open>The value of the deployment-target setting of a configuration object, if any.\<close>

definition deploymentTarget :: "XCBuildConfiguration \<Rightarrow> string option" where
  "deploymentTarget c =
     (case buildSettings c of
        Some bs \<Rightarrow> map_of bs IPHONEOS_DEPLOYMENT_TARGET
      | None \<Rightarrow> None)"

text \<open>The test of line 80 on a setting: strictly below the threshold for the comparator.\<close>

definition below :: "(string \<Rightarrow> string \<Rightarrow> int) \<Rightarrow> string option \<Rightarrow> bool" where
  "below cmp t = (case t of Some v \<Rightarrow> cmp v IOS_DEPLOYMENT_TARGET = - 1 | None \<Rightarrow> False)"

text \<open>
  A record needs raising when the test of line 79 fails (the setting is \<open>undefined\<close> or
  the empty string) or the test of line 80 succeeds.
\<close>

definition needsRaise :: "(string \<Rightarrow> string \<Rightarrow> int) \<Rightarrow> XCBuildConfiguration \<Rightarrow> bool" where
  "needsRaise cmp c = (\<not> truthy (deploymentTarget c) \<or> below cmp (deploymentTarget c))"

text \<open>The effect of one pass of the loop body on a configuration object.\<close>

definition raised ::
  "(string \<Rightarrow> string \<Rightarrow> int) \<Rightarrow> XCBuildConfiguration \<Rightarrow> XCBuildConfiguration" where
  "raised cmp c =
     (case buildSettings c of
        Some bs \<Rightarrow> c\<lparr>buildSettings := Some (fst (raiseTarget cmp bs False))\<rparr>
      | None \<Rightarrow> c)"

text \<open>The addresses the loop visits: those referenced under the keys \<open>ks\<close>.\<close>

definition targets :: "string list \<Rightarrow> jsval obj \<Rightarrow> addr set" where
  "targets ks confs = {a. \<exists>k \<in> set ks. map_of confs k = Some (Ref a)}"

text \<open>The loop can visit every key: each one leads to an object that has \<open>buildSettings\<close>.\<close>

definition visitable :: "string list \<Rightarrow> jsval obj \<Rightarrow> XCBuildConfiguration list \<Rightarrow> bool" where
  "visitable ks confs h =
     (\<forall>k \<in> set ks. \<exists>a. map_of confs k = Some (Ref a) \<and> a < length h \<and>
        buildSettings (h ! a) \<noteq> None)"

text \<open>
  A project whose section is as the parser builds it: every entry that is not a comment
  refers to a configuration object of the store that has \<open>buildSettings\<close>.
\<close>

definition isConfiguration :: "XCBuildConfiguration list \<Rightarrow> jsval \<Rightarrow> bool" where
  "isConfiguration h v =
     (case v of Ref a \<Rightarrow> a < length h \<and> buildSettings (h ! a) \<noteq> None | Str s \<Rightarrow> False)"

definition configurable :: "pbxProject \<Rightarrow> bool" where
  "configurable p =
     list_all (\<lambda>(k, v). COMMENT_KEY k \<or> isConfiguration (objects p) v)
       (XCBuildConfiguration_section p)"

text \<open>The addresses of the configuration objects of a project: those under non-comment keys.\<close>

definition configured :: "pbxProject \<Rightarrow> addr set" where
  "configured p =
     {a. \<exists>k. \<not> COMMENT_KEY k \<and> map_of (XCBuildConfiguration_section p) k = Some (Ref a)}"

section \<open>A sample project and a sample disk\<close>

definition settings_7_1 :: "string obj" where
  "settings_7_1 = [(''PRODUCT_NAME'', ''MyApp''), (''IPHONEOS_DEPLOYMENT_TARGET'', ''7.1'')]"

definition settings_none :: "string obj" where
  "settings_none = [(''PRODUCT_NAME'', ''MyApp'')]"

definition settings_10_0 :: "string obj" where
  "settings_10_0 = [(''IPHONEOS_DEPLOYMENT_TARGET'', ''10.0'')]"

definition config_with :: "string \<Rightarrow> string obj \<Rightarrow> XCBuildConfiguration" where
  "config_with n bs = \<lparr>isa = ''XCBuildConfiguration'', buildSettings = Some bs, name = n\<rparr>"

definition sample_project :: pbxProject where
  "sample_project =
     \<lparr>XCBuildConfiguration_section =
        [(''1D60'', Ref 0), (''1D60_comment'', Str ''Debug''),
         (''1D61'', Ref 1), (''1D61_comment'', Str ''Release''),
         (''C01F'', Ref 2), (''C01F_comment'', Str ''Debug'')],
      objects =
        [config_with ''Debug'' settings_7_1, config_with ''Release'' settings_none,
         config_with ''Debug'' settings_10_0]\<rparr>"

text \<open>A project in which every configuration already holds a target of at least 8.0.\<close>

definition settled_project :: pbxProject where
  "settled_project =
     \<lparr>XCBuildConfiguration_section =
        [(''1D60'', Ref 0), (''1D60_comment'', Str ''Debug'')],
      objects = [config_with ''Debug'' settings_10_0]\<rparr>"

definition simple_join :: "string \<Rightarrow> string \<Rightarrow> string" where
  "simple_join a b = (if a \<noteq> [] \<and> last a = CHR ''/'' then a @ b else a @ ''/'' @ b)"

definition sample_env :: env where
  "sample_env =
     \<lparr>path_join = simple_join, version_compare = compare,
      xcode_parse = (\<lambda>txt. if txt = ''settled'' then Inr settled_project
                            else Inl (ParseError txt)),
      xcode_writeSync = (\<lambda>p. concat (map fst (XCBuildConfiguration_section p)))\<rparr>"

definition sample_context :: cordova_context where
  "sample_context = \<lparr>projectRoot = ''/app'', cordova_project = None\<rparr>"

text \<open>A cordova project without the iOS platform: no \<open>platforms/ios/\<close>, no bundle.\<close>

definition android_only_world :: world where
  "android_only_world =
     \<lparr>files = [(''/app'', Dir [''config.xml'', ''www'', ''platforms'']),
               (''/app/platforms'', Dir [''android''])],
      events = []\<rparr>"

text \<open>A cordova project with the iOS platform and one bundle.\<close>

definition ios_world :: world where
  "ios_world =
     \<lparr>files = [(''/app'', Dir [''config.xml'', ''www'', ''platforms'']),
               (''/app/platforms/ios/'', Dir [''MyApp'', ''MyApp.xcodeproj'', ''cordova'']),
               (''/app/platforms/ios/MyApp.xcodeproj/project.pbxproj'', File ''settled'')],
      events = []\<rparr>"

text \<open>A project root without \<open>platforms/ios/\<close> that holds a bundle itself.\<close>

definition bundle_in_root_world :: world where
  "bundle_in_root_world =
     \<lparr>files = [(''/app'', Dir [''MyApp.xcodeproj'', ''www'']),
               (''/app/MyApp.xcodeproj/project.pbxproj'', File ''settled'')],
      events = []\<rparr>"

section \<open>Properties of nonComments\<close>

lemma nonComments_loop_map_of:
  "map_of (nonComments_loop ks obj acc) k =
     (if k \<in> set ks \<and> \<not> COMMENT_KEY k \<and> map_of obj k \<noteq> None then map_of obj k else map_of acc k)"
  by (induction ks arbitrary: acc) (auto simp: update_conv' split: option.splits)

lemma nonComments_loop_keys:
  "set (map fst (nonComments_loop ks obj acc)) =
     set (map fst acc) \<union> {k \<in> set ks. \<not> COMMENT_KEY k \<and> map_of obj k \<noteq> None}"
  by (induction ks arbitrary: acc) (auto simp: dom_update split: option.splits)

lemma map_of_nonComments:
  "map_of (nonComments obj) k = (if COMMENT_KEY k then None else map_of obj k)"
proof -
  have "k \<notin> set (map fst obj) \<Longrightarrow> map_of obj k = None"
    by (simp add: map_of_eq_None_iff)
  then show ?thesis
    unfolding nonComments_def nonComments_loop_map_of by auto
qed

lemma keys_nonComments:
  "set (map fst (nonComments obj)) = {k. \<not> COMMENT_KEY k \<and> map_of obj k \<noteq> None}"
  unfolding nonComments_def nonComments_loop_keys
  by (auto simp: map_of_eq_None_iff)

lemma targets_nonComments:
  "targets (map fst (nonComments (XCBuildConfiguration_section p)))
     (nonComments (XCBuildConfiguration_section p)) = configured p"
  unfolding targets_def configured_def keys_nonComments
  by (auto simp: map_of_nonComments)

lemma configurable_visitable:
  assumes "configurable p"
  shows "visitable (map fst (nonComments (XCBuildConfiguration_section p)))
           (nonComments (XCBuildConfiguration_section p)) (objects p)"
  unfolding visitable_def
proof
  fix k assume "k \<in> set (map fst (nonComments (XCBuildConfiguration_section p)))"
  then have nc: "\<not> COMMENT_KEY k" and "map_of (XCBuildConfiguration_section p) k \<noteq> None"
    unfolding keys_nonComments by auto
  then obtain v where v: "map_of (XCBuildConfiguration_section p) k = Some v" by auto
  then have "(k, v) \<in> set (XCBuildConfiguration_section p)" by (rule map_of_SomeD)
  with assms nc have "isConfiguration (objects p) v"
    by (auto simp: configurable_def list_all_iff)
  then obtain a where "v = Ref a" "a < length (objects p)" "buildSettings (objects p ! a) \<noteq> None"
    by (auto simp: isConfiguration_def split: jsval.splits)
  with v nc show "\<exists>a. map_of (nonComments (XCBuildConfiguration_section p)) k = Some (Ref a) \<and>
      a < length (objects p) \<and> buildSettings (objects p ! a) \<noteq> None"
    by (simp add: map_of_nonComments)
qed

section \<open>Properties of the loop body\<close>

lemma fst_raiseTarget: "fst (raiseTarget cmp bs u) = fst (raiseTarget cmp bs False)"
  by (simp add: raiseTarget_def split: option.splits)

lemma raiseTarget_lookup:
  "map_of (fst (raiseTarget cmp bs u)) IPHONEOS_DEPLOYMENT_TARGET =
     (if \<not> truthy (map_of bs IPHONEOS_DEPLOYMENT_TARGET) \<or> below cmp (map_of bs IPHONEOS_DEPLOYMENT_TARGET)
      then Some IOS_DEPLOYMENT_TARGET else map_of bs IPHONEOS_DEPLOYMENT_TARGET)"
  by (auto simp: raiseTarget_def below_def update_conv' split: option.splits)

lemma raiseTarget_flag:
  "snd (raiseTarget cmp bs u) =
     (u \<or> \<not> truthy (map_of bs IPHONEOS_DEPLOYMENT_TARGET) \<or> below cmp (map_of bs IPHONEOS_DEPLOYMENT_TARGET))"
  by (auto simp: raiseTarget_def below_def split: option.splits)

lemma raiseTarget_steady:
  "truthy (map_of bs IPHONEOS_DEPLOYMENT_TARGET) \<Longrightarrow> \<not> below cmp (map_of bs IPHONEOS_DEPLOYMENT_TARGET) \<Longrightarrow>
   raiseTarget cmp bs u = (bs, u)"
  by (auto simp: raiseTarget_def below_def split: option.splits)

lemma raiseTarget_idem:
  "fst (raiseTarget cmp (fst (raiseTarget cmp bs u)) u') = fst (raiseTarget cmp bs u)"
  by (auto simp: raiseTarget_def update_conv' IOS_DEPLOYMENT_TARGET_def update_triv split: option.splits)

lemma raised_idem: "raised cmp (raised cmp c) = raised cmp c"
  by (auto simp: raised_def raiseTarget_idem split: option.splits)

lemma raised_steady: "\<not> needsRaise cmp c \<Longrightarrow> raised cmp c = c"
  by (auto simp: raised_def needsRaise_def deploymentTarget_def raiseTarget_steady split: option.splits)

lemma deploymentTarget_raised:
  "buildSettings c \<noteq> None \<Longrightarrow>
   deploymentTarget (raised cmp c) =
     (if needsRaise cmp c then Some IOS_DEPLOYMENT_TARGET else deploymentTarget c)"
  by (auto simp: raised_def needsRaise_def deploymentTarget_def raiseTarget_lookup split: option.splits)

section \<open>Properties of the loop\<close>

lemma forin_configurations_result:
  "visitable ks confs h \<Longrightarrow>
   \<exists>h'. forin_configurations cmp ks confs (h, u) =
           Inr (h', u \<or> (\<exists>a \<in> targets ks confs. needsRaise cmp (h ! a))) \<and>
         length h' = length h \<and>
         (\<forall>a < length h. h' ! a = (if a \<in> targets ks confs then raised cmp (h ! a) else h ! a))"
proof (induction ks arbitrary: h u)
  case Nil
  then show ?case by (simp add: targets_def)
next
  case (Cons k ks)
  from Cons.prems obtain a bs where
    ka: "map_of confs k = Some (Ref a)" and al: "a < length h" and bs: "buildSettings (h ! a) = Some bs"
    by (auto simp: visitable_def)
  obtain bs' u1 where rt: "raiseTarget cmp bs u = (bs', u1)" by (cases "raiseTarget cmp bs u")
  let ?h1 = "h[a := (h ! a)\<lparr>buildSettings := Some bs'\<rparr>]"
  have bs': "bs' = fst (raiseTarget cmp bs False)"
    using rt fst_raiseTarget[of cmp bs u] by simp
  have u1: "u1 = (u \<or> needsRaise cmp (h ! a))"
    using rt raiseTarget_flag[of cmp bs u] bs by (simp add: needsRaise_def deploymentTarget_def)
  have h1a: "?h1 ! a = raised cmp (h ! a)"
    using al bs bs' by (simp add: raised_def)
  have h1_steady: "\<not> needsRaise cmp (h ! a) \<Longrightarrow> ?h1 = h"
  proof -
    assume "\<not> needsRaise cmp (h ! a)"
    then have "raised cmp (h ! a) = h ! a" by (rule raised_steady)
    with h1a have "?h1 ! a = h ! a" by simp
    then show "?h1 = h" using al by (metis list_update_id nth_list_update_eq)
  qed
  have vis: "visitable ks confs ?h1"
    unfolding visitable_def
  proof
    fix k' assume "k' \<in> set ks"
    with Cons.prems obtain b where
      b: "map_of confs k' = Some (Ref b)" "b < length h" "buildSettings (h ! b) \<noteq> None"
      by (auto simp: visitable_def)
    have "buildSettings (?h1 ! b) \<noteq> None"
      using b al by (cases "b = a") auto
    with b show "\<exists>a'. map_of confs k' = Some (Ref a') \<and> a' < length ?h1 \<and> buildSettings (?h1 ! a') \<noteq> None"
      by auto
  qed
  from Cons.IH[OF vis, of u1] obtain h' where
    run: "forin_configurations cmp ks confs (?h1, u1) =
            Inr (h', u1 \<or> (\<exists>b \<in> targets ks confs. needsRaise cmp (?h1 ! b)))" and
    len: "length h' = length ?h1" and
    nth: "\<forall>b < length ?h1. h' ! b = (if b \<in> targets ks confs then raised cmp (?h1 ! b) else ?h1 ! b)"
    by blast
  have tg: "targets (k # ks) confs = insert a (targets ks confs)"
    using ka by (auto simp: targets_def)
  have flag: "(u1 \<or> (\<exists>b \<in> targets ks confs. needsRaise cmp (?h1 ! b))) =
              (u \<or> (\<exists>b \<in> targets (k # ks) confs. needsRaise cmp (h ! b)))"
  proof (cases "needsRaise cmp (h ! a)")
    case True
    then show ?thesis using u1 tg by simp
  next
    case False
    then show ?thesis using u1 tg h1_steady by auto
  qed
  have step: "forin_configurations cmp (k # ks) confs (h, u) =
                Inr (h', u \<or> (\<exists>b \<in> targets (k # ks) confs. needsRaise cmp (h ! b)))"
    using ka al bs rt run flag by simp
  have "\<forall>b < length h. h' ! b = (if b \<in> targets (k # ks) confs then raised cmp (h ! b) else h ! b)"
  proof (intro allI impI)
    fix b assume bl: "b < length h"
    show "h' ! b = (if b \<in> targets (k # ks) confs then raised cmp (h ! b) else h ! b)"
    proof (cases "b = a")
      case True
      then show ?thesis using nth bl h1a tg by (simp add: raised_idem)
    next
      case False
      then show ?thesis using nth bl tg by simp
    qed
  qed
  with step len show ?case by simp
qed

lemma forin_configurations_visitable:
  "forin_configurations cmp ks confs (h, u) = Inr r \<Longrightarrow> visitable ks confs h"
proof (induction ks arbitrary: h u)
  case Nil
  then show ?case by (simp add: visitable_def)
next
  case (Cons k ks)
  from Cons.prems obtain a bs where
    ka: "map_of confs k = Some (Ref a)" and al: "a < length h" and bs: "buildSettings (h ! a) = Some bs"
    by (auto split: option.splits jsval.splits if_splits)
  obtain bs' u1 where rt: "raiseTarget cmp bs u = (bs', u1)" by (cases "raiseTarget cmp bs u")
  let ?h1 = "h[a := (h ! a)\<lparr>buildSettings := Some bs'\<rparr>]"
  have "forin_configurations cmp ks confs (?h1, u1) = Inr r"
    using Cons.prems ka al bs rt by simp
  then have vis1: "visitable ks confs ?h1" by (rule Cons.IH)
  show ?case
    unfolding visitable_def
  proof
    fix k' assume "k' \<in> set (k # ks)"
    then consider "k' = k" | "k' \<in> set ks" by auto
    then show "\<exists>a'. map_of confs k' = Some (Ref a') \<and> a' < length h \<and> buildSettings (h ! a') \<noteq> None"
    proof cases
      case 1
      then show ?thesis using ka al bs by simp
    next
      case 2
      with vis1 obtain b where
        b: "map_of confs k' = Some (Ref b)" "b < length ?h1" "buildSettings (?h1 ! b) \<noteq> None"
        by (auto simp: visitable_def)
      have "buildSettings (h ! b) \<noteq> None"
        using b al bs by (cases "b = a") auto
      with b show ?thesis by auto
    qed
  qed
qed

section \<open>Properties of the patch of a parsed project\<close>

lemma raiseDeploymentTargets_result:
  assumes "visitable (map fst (nonComments (XCBuildConfiguration_section p)))
             (nonComments (XCBuildConfiguration_section p)) (objects p)"
  shows "\<exists>h'. raiseDeploymentTargets cmp p =
                 Inr (p\<lparr>objects := h'\<rparr>, \<exists>a \<in> configured p. needsRaise cmp (objects p ! a)) \<and>
               length h' = length (objects p) \<and>
               (\<forall>a < length (objects p).
                  h' ! a = (if a \<in> configured p then raised cmp (objects p ! a) else objects p ! a))"
proof -
  from forin_configurations_result[OF assms, of cmp False] obtain h' where
    "forin_configurations cmp (map fst (nonComments (XCBuildConfiguration_section p)))
       (nonComments (XCBuildConfiguration_section p)) (objects p, False) =
       Inr (h', \<exists>a \<in> configured p. needsRaise cmp (objects p ! a))"
    "length h' = length (objects p)"
    "\<forall>a < length (objects p).
        h' ! a = (if a \<in> configured p then raised cmp (objects p ! a) else objects p ! a)"
    unfolding targets_nonComments by auto
  then show ?thesis
    by (auto simp: raiseDeploymentTargets_def pbxXCBuildConfigurationSection_def)
qed

lemma raiseDeploymentTargets_Inr_visitable:
  assumes "raiseDeploymentTargets cmp p = Inr r"
  shows "visitable (map fst (nonComments (XCBuildConfiguration_section p)))
           (nonComments (XCBuildConfiguration_section p)) (objects p)"
proof -
  from assms obtain r' where
    "forin_configurations cmp (map fst (nonComments (XCBuildConfiguration_section p)))
       (nonComments (XCBuildConfiguration_section p)) (objects p, False) = Inr r'"
    by (auto simp: raiseDeploymentTargets_def pbxXCBuildConfigurationSection_def Let_def
             split: sum.splits)
  then show ?thesis by (rule forin_configurations_visitable)
qed

lemma configured_in_store:
  assumes "configurable p" "\<not> COMMENT_KEY k" "map_of (XCBuildConfiguration_section p) k = Some (Ref a)"
  shows "a \<in> configured p" "a < length (objects p)" "buildSettings (objects p ! a) \<noteq> None"
proof -
  show "a \<in> configured p" using assms(2,3) by (auto simp: configured_def)
  from assms(3) have "(k, Ref a) \<in> set (XCBuildConfiguration_section p)" by (rule map_of_SomeD)
  with assms(1,2) have "isConfiguration (objects p) (Ref a)"
    by (auto simp: configurable_def list_all_iff)
  then show "a < length (objects p)" "buildSettings (objects p ! a) \<noteq> None"
    by (simp_all add: isConfiguration_def)
qed

section \<open>Properties of the comparator model and of the samples\<close>

lemma compare_segments_antisym: "compare_segments ys xs = - compare_segments xs ys"
proof (induction xs ys rule: compare_segments.induct)
  case 1
  show ?case by simp
next
  case (2 x xs)
  then show ?case by (cases xs) simp_all
next
  case (3 y ys)
  then show ?case by (cases ys) simp_all
next
  case (4 x xs y ys)
  then show ?case by simp
qed

lemma compare_segments_refl: "compare_segments xs xs = 0"
  by (induction xs) auto

lemma compare_refl: "compare v v = 0"
  by (simp add: compare_def compare_segments_refl)

lemma compare_antisym: "compare w v = - compare v w"
  unfolding compare_def by (rule compare_segments_antisym)

lemma sample_project_configurable: "configurable sample_project"
  by (simp add: configurable_def sample_project_def isConfiguration_def config_with_def
        COMMENT_KEY_def suffix_to_prefix)

section \<open>The comparator model on dotted decimal versions\<close>


















section \<open>Properties of the search for the bundle\<close>

lemma forEach_folder_nomatch:
  "filter (suffix ''.xcodeproj'') data = [] \<Longrightarrow> forEach_folder join d data st = st"
proof (induction data arbitrary: st)
  case Nil
  show ?case by simp
next
  case (Cons folder rest)
  obtain pf pn where st: "st = (pf, pn)" by (cases st)
  from Cons.prems have "\<not> suffix ''.xcodeproj'' folder" and "filter (suffix ''.xcodeproj'') rest = []"
    by (auto split: if_splits)
  with Cons.IH st show ?case by simp
qed

lemma forEach_folder_last:
  "filter (suffix ''.xcodeproj'') data \<noteq> [] \<Longrightarrow>
   forEach_folder join d data st =
     (Some (join d (last (filter (suffix ''.xcodeproj'') data))),
      Some (basename (last (filter (suffix ''.xcodeproj'') data)) ''.xcodeproj''))"
proof (induction data arbitrary: st)
  case Nil
  then show ?case by simp
next
  case (Cons folder rest)
  obtain pf pn where st: "st = (pf, pn)" by (cases st)
  show ?case
  proof (cases "filter (suffix ''.xcodeproj'') rest = []")
    case True
    with Cons.prems have m: "suffix ''.xcodeproj'' folder" by (auto split: if_splits)
    with True st show ?thesis by (simp add: forEach_folder_nomatch)
  next
    case False
    from Cons.IH[OF False] False st show ?thesis by simp
  qed
qed

lemma dropWhile_none: "\<forall>x \<in> set xs. \<not> P x \<Longrightarrow> dropWhile P xs = xs"
  by (cases xs) simp_all

lemma last_component_plain:
  assumes "CHR ''/'' \<notin> set p"
  shows "rev (takeWhile (\<lambda>c. c \<noteq> CHR ''/'') (dropWhile (\<lambda>c. c = CHR ''/'') (rev p))) = p"
proof -
  have d: "dropWhile (\<lambda>c. c = CHR ''/'') (rev p) = rev p"
    using assms by (intro dropWhile_none) auto
  have t: "takeWhile (\<lambda>c. c \<noteq> CHR ''/'') (rev p) = rev p"
    using assms by (intro takeWhile_eq_all_conv[THEN iffD2]) auto
  show ?thesis unfolding d t by simp
qed

lemma basename_entry:
  assumes "CHR ''/'' \<notin> set stem" "CHR ''/'' \<notin> set ext" "ext \<noteq> []"
  shows "basename (stem @ ext) ext = stem"
proof -
  have p: "CHR ''/'' \<notin> set (stem @ ext)" using assms by simp
  have s: "suffix ext (stem @ ext)" by (rule suffixI) simp
  show ?thesis
    unfolding basename_def Let_def last_component_plain[OF p]
    using assms(3) s by simp
qed

lemma findProject_nomatch:
  "\<forall>f \<in> set data. \<not> suffix ''.xcodeproj'' f \<Longrightarrow> findProject join d data = (None, None)"
proof -
  assume "\<forall>f \<in> set data. \<not> suffix ''.xcodeproj'' f"
  then have "filter (suffix ''.xcodeproj'') data = []" by (simp add: filter_empty_conv)
  then show ?thesis by (simp add: findProject_def forEach_folder_nomatch)
qed

lemma android_iosFolder: "iosFolder_of sample_env sample_context android_only_world = ''/app''"
  by (simp add: iosFolder_of_def sample_env_def sample_context_def android_only_world_def
        existsSync_def simple_join_def)

section \<open>Properties of the hook on the disk\<close>

lemma raiseDeploymentTargets_settled:
  assumes "configurable p"
    and "\<forall>a \<in> configured p. \<not> needsRaise cmp (objects p ! a)"
  shows "raiseDeploymentTargets cmp p = Inr (p, False)"
proof -
  from raiseDeploymentTargets_result[OF configurable_visitable[OF assms(1)], of cmp]
  obtain h' where
    run: "raiseDeploymentTargets cmp p =
            Inr (p\<lparr>objects := h'\<rparr>, \<exists>a \<in> configured p. needsRaise cmp (objects p ! a))" and
    len: "length h' = length (objects p)" and
    nth: "\<forall>a < length (objects p).
            h' ! a = (if a \<in> configured p then raised cmp (objects p ! a) else objects p ! a)"
    by blast
  have "h' = objects p"
  proof (rule nth_equalityI)
    show "length h' = length (objects p)" by (rule len)
  next
    fix a assume "a < length h'"
    then have "a < length (objects p)" using len by simp
    with nth assms(2) show "h' ! a = objects p ! a" by (simp add: raised_steady)
  qed
  with run assms(2) show ?thesis by simp
qed

lemma activate_Inr_writes:
  assumes "activateAssociativeDomains e ctx folder w = (Inr (), w')"
  shows "\<exists>txt. events w' \<noteq> [] \<and>
           last (events w') = WriteFile (path_join e folder ''project.pbxproj'') txt \<and>
           map_of (files w') (path_join e folder ''project.pbxproj'') = Some (File txt)"
proof -
  let ?path = "path_join e folder ''project.pbxproj''"
  obtain r w1 where ld: "loadProject e ctx ?path w = (r, w1)" by (cases "loadProject e ctx ?path w")
  from assms ld obtain p where r: "r = Inr p"
    by (cases r) (auto simp: activateAssociativeDomains_def)
  from assms ld r obtain p' u where
    run: "raiseDeploymentTargets (version_compare e) p = Inr (p', u)"
    by (cases "raiseDeploymentTargets (version_compare e) p")
       (auto simp: activateAssociativeDomains_def)
  from assms ld r run obtain w2 where "w' = writeFileSync ?path (xcode_writeSync e p') w2"
    by (auto simp: activateAssociativeDomains_def Let_def)
  then show ?thesis by (auto simp: writeFileSync_def update_conv')
qed

lemma readdir_directoryExists:
  "readdirSync w d = Inr data \<Longrightarrow> directoryExists w d = Inr True"
  by (auto simp: readdirSync_def directoryExists_def split: option.splits node.splits)

lemma findProject_Some:
  assumes "findProject join d data = (Some pf, pn)"
  shows "\<exists>folder \<in> set data. suffix ''.xcodeproj'' folder \<and> pf = join d folder"
proof (cases "filter (suffix ''.xcodeproj'') data = []")
  case True
  then have "findProject join d data = (None, None)"
    by (simp add: findProject_def forEach_folder_nomatch)
  with assms show ?thesis by simp
next
  case False
  then have ne: "data \<noteq> []" by auto
  let ?l = "last (filter (suffix ''.xcodeproj'') data)"
  from False have "?l \<in> set (filter (suffix ''.xcodeproj'') data)" by (rule last_in_set)
  then have "?l \<in> set data" "suffix ''.xcodeproj'' ?l" by auto
  moreover have "pf = join d ?l"
    using assms ne forEach_folder_last[OF False, of join d "(None, None)"]
    by (simp add: findProject_def)
  ultimately show ?thesis by blast
qed

lemma hook_Inr_writes:
  assumes "enableAssociativeDomainsCapability e ctx w = (Inr (), w')"
  shows "\<exists>data folder txt.
           readdirSync w (iosFolder_of e ctx w) = Inr data \<and>
           folder \<in> set data \<and> suffix ''.xcodeproj'' folder \<and>
           events w' \<noteq> [] \<and>
           last (events w') =
             WriteFile (path_join e (path_join e (iosFolder_of e ctx w) folder) ''project.pbxproj'') txt"
proof -
  let ?d = "iosFolder_of e ctx w"
  from assms obtain data where rd: "readdirSync w ?d = Inr data"
    by (cases "readdirSync w ?d") (auto simp: enableAssociativeDomainsCapability_def Let_def)
  have de: "directoryExists w ?d = Inr True" using rd by (rule readdir_directoryExists)
  obtain pf pn where fp: "findProject (path_join e) ?d data = (pf, pn)"
    by (cases "findProject (path_join e) ?d data")
  from assms rd fp de obtain projFolder where pf: "pf = Some projFolder"
    and act: "activateAssociativeDomains e ctx projFolder w = (Inr (), w')"
    by (auto simp: enableAssociativeDomainsCapability_def Let_def
             split: option.splits if_splits)
  from fp pf obtain folder where
    f: "folder \<in> set data" "suffix ''.xcodeproj'' folder" "projFolder = path_join e ?d folder"
    using findProject_Some by blast
  from activate_Inr_writes[OF act] f rd show ?thesis by blast
qed

lemma settled_project_configurable: "configurable settled_project"
  by (simp add: configurable_def settled_project_def isConfiguration_def config_with_def
        COMMENT_KEY_def suffix_to_prefix)

lemma settled_project_settled:
  "\<forall>a \<in> configured settled_project. \<not> needsRaise compare (objects settled_project ! a)"
proof
  fix a assume "a \<in> configured settled_project"
  then have "a = 0"
    by (auto simp: configured_def settled_project_def split: if_splits)
  then show "\<not> needsRaise compare (objects settled_project ! a)"
    by (simp add: settled_project_def needsRaise_def deploymentTarget_def config_with_def
          settings_10_0_def IPHONEOS_DEPLOYMENT_TARGET_def below_def compare_def digit_def
          IOS_DEPLOYMENT_TARGET_def)
qed

section \<open>The claims\<close>

text \<open>
  C1. For every non-comment build-configuration record, one run of the patch leaves the
  deployment-target setting present and equal to the threshold if it was absent or
  strictly below the threshold, and leaves it with its previous value otherwise. The
  patch returns normally on every project whose non-comment entries are configuration
  objects, whatever the comparator. "Absent" is the test of line 79: the setting is
  \<open>undefined\<close> or the empty string. Since the new value is one of the threshold and the
  old value, it is never a value strictly between them.
\<close>

theorem deployment_target_after_patch:
  assumes "configurable p"
    and "\<not> COMMENT_KEY k"
    and "map_of (XCBuildConfiguration_section p) k = Some (Ref a)"
  shows "\<exists>p' updated.
           raiseDeploymentTargets cmp p = Inr (p', updated) \<and>
           XCBuildConfiguration_section p' = XCBuildConfiguration_section p \<and>
           deploymentTarget (objects p' ! a) =
             (if \<not> truthy (deploymentTarget (objects p ! a)) \<or> below cmp (deploymentTarget (objects p ! a))
              then Some IOS_DEPLOYMENT_TARGET
              else deploymentTarget (objects p ! a))"
proof -
  note a = configured_in_store[OF assms]
  from raiseDeploymentTargets_result[OF configurable_visitable[OF assms(1)], of cmp]
  obtain h' where
    run: "raiseDeploymentTargets cmp p =
            Inr (p\<lparr>objects := h'\<rparr>, \<exists>a \<in> configured p. needsRaise cmp (objects p ! a))" and
    nth: "\<forall>a < length (objects p).
            h' ! a = (if a \<in> configured p then raised cmp (objects p ! a) else objects p ! a)"
    by blast
  from nth a have "h' ! a = raised cmp (objects p ! a)" by simp
  then have "deploymentTarget (h' ! a) =
      (if needsRaise cmp (objects p ! a) then Some IOS_DEPLOYMENT_TARGET
       else deploymentTarget (objects p ! a))"
    using a(3) by (simp add: deploymentTarget_raised)
  with run show ?thesis by (simp add: needsRaise_def)
qed

theorem deployment_target_after_patch_witness:
  "configurable sample_project \<and> \<not> COMMENT_KEY ''1D60'' \<and>
   map_of (XCBuildConfiguration_section sample_project) ''1D60'' = Some (Ref 0) \<and>
   deploymentTarget (objects sample_project ! 0) = Some ''7.1'' \<and>
   below compare (Some ''7.1'') \<and>
   (\<exists>p' updated.
      raiseDeploymentTargets compare sample_project = Inr (p', updated) \<and>
      XCBuildConfiguration_section p' = XCBuildConfiguration_section sample_project \<and>
      deploymentTarget (objects p' ! 0) = Some ''8.0'')"
proof -
  have c: "configurable sample_project" by (rule sample_project_configurable)
  have k: "\<not> COMMENT_KEY ''1D60''" by (simp add: COMMENT_KEY_def suffix_to_prefix)
  have m: "map_of (XCBuildConfiguration_section sample_project) ''1D60'' = Some (Ref 0)"
    by (simp add: sample_project_def)
  have d: "deploymentTarget (objects sample_project ! 0) = Some ''7.1''"
    by (simp add: sample_project_def deploymentTarget_def config_with_def settings_7_1_def
          IPHONEOS_DEPLOYMENT_TARGET_def)
  have b: "below compare (Some ''7.1'')"
    by (simp add: below_def compare_def digit_def IOS_DEPLOYMENT_TARGET_def)
  from deployment_target_after_patch[OF c k m, of compare] c k m d b
  show ?thesis by (simp add: IOS_DEPLOYMENT_TARGET_def)
qed

text \<open>
  C2. The patch never lowers a deployment-target setting. For a comparator whose
  "strictly less" is irreflexive and asymmetric, every non-comment record ends with a
  value that is not below the threshold: the threshold itself when the setting was unset
  (\<open>undefined\<close> or empty) or below, and the original value otherwise, which was then
  already not below the threshold. In both cases the final value is not below the old one.
\<close>

theorem deployment_target_never_lowered:
  assumes "configurable p"
    and "\<not> COMMENT_KEY k"
    and "map_of (XCBuildConfiguration_section p) k = Some (Ref a)"
    and irrefl: "\<And>v. cmp v v \<noteq> - 1"
    and asym: "\<And>v w. cmp v w = - 1 \<Longrightarrow> cmp w v \<noteq> - 1"
  shows "\<exists>p' updated new.
           raiseDeploymentTargets cmp p = Inr (p', updated) \<and>
           deploymentTarget (objects p' ! a) = Some new \<and>
           cmp new IOS_DEPLOYMENT_TARGET \<noteq> - 1 \<and>
           (case deploymentTarget (objects p ! a) of
              None \<Rightarrow> new = IOS_DEPLOYMENT_TARGET
            | Some old \<Rightarrow>
                if old = [] then new = IOS_DEPLOYMENT_TARGET
                else (if cmp old IOS_DEPLOYMENT_TARGET = - 1 then new = IOS_DEPLOYMENT_TARGET
                      else new = old) \<and>
                     cmp new old \<noteq> - 1)"
proof -
  note a = configured_in_store[OF assms(1-3)]
  from raiseDeploymentTargets_result[OF configurable_visitable[OF assms(1)], of cmp]
  obtain h' where
    run: "raiseDeploymentTargets cmp p =
            Inr (p\<lparr>objects := h'\<rparr>, \<exists>a \<in> configured p. needsRaise cmp (objects p ! a))" and
    nth: "\<forall>a < length (objects p).
            h' ! a = (if a \<in> configured p then raised cmp (objects p ! a) else objects p ! a)"
    by blast
  from nth a have "h' ! a = raised cmp (objects p ! a)" by simp
  then have new: "deploymentTarget (h' ! a) =
      (if needsRaise cmp (objects p ! a) then Some IOS_DEPLOYMENT_TARGET
       else deploymentTarget (objects p ! a))"
    using a(3) by (simp add: deploymentTarget_raised)
  show ?thesis
  proof (cases "deploymentTarget (objects p ! a)")
    case None
    then have "deploymentTarget (h' ! a) = Some IOS_DEPLOYMENT_TARGET"
      using new by (simp add: needsRaise_def)
    with run None irrefl show ?thesis by simp
  next
    case (Some old)
    show ?thesis
    proof (cases "old = [] \<or> cmp old IOS_DEPLOYMENT_TARGET = - 1")
      case True
      then have "deploymentTarget (h' ! a) = Some IOS_DEPLOYMENT_TARGET"
        using new Some by (auto simp: needsRaise_def below_def)
      with run Some True irrefl asym show ?thesis by auto
    next
      case False
      then have "deploymentTarget (h' ! a) = Some old"
        using new Some by (auto simp: needsRaise_def below_def)
      with run Some False irrefl show ?thesis by auto
    qed
  qed
qed

theorem deployment_target_never_lowered_witness:
  "configurable sample_project \<and> \<not> COMMENT_KEY ''C01F'' \<and>
   map_of (XCBuildConfiguration_section sample_project) ''C01F'' = Some (Ref 2) \<and>
   deploymentTarget (objects sample_project ! 2) = Some ''10.0'' \<and>
   (\<exists>p' updated.
      raiseDeploymentTargets compare sample_project = Inr (p', updated) \<and>
      deploymentTarget (objects p' ! 2) = Some ''10.0'' \<and>
      compare ''10.0'' IOS_DEPLOYMENT_TARGET \<noteq> - 1)"
proof -
  have c: "configurable sample_project" by (rule sample_project_configurable)
  have k: "\<not> COMMENT_KEY ''C01F''" by (simp add: COMMENT_KEY_def suffix_to_prefix)
  have m: "map_of (XCBuildConfiguration_section sample_project) ''C01F'' = Some (Ref 2)"
    by (simp add: sample_project_def)
  have d: "deploymentTarget (objects sample_project ! 2) = Some ''10.0''"
    by (simp add: sample_project_def deploymentTarget_def config_with_def settings_10_0_def
          IPHONEOS_DEPLOYMENT_TARGET_def)
  have b: "compare ''10.0'' IOS_DEPLOYMENT_TARGET = 1"
    by (simp add: compare_def digit_def IOS_DEPLOYMENT_TARGET_def)
  have irrefl: "\<And>v. compare v v \<noteq> - 1" by (simp add: compare_refl)
  have asym: "\<And>v w. compare v w = - 1 \<Longrightarrow> compare w v \<noteq> - 1"
  proof -
    fix v w assume "compare v w = - 1"
    then have "compare w v = 1" by (subst compare_antisym) simp
    then show "compare w v \<noteq> - 1" by simp
  qed
  from deployment_target_never_lowered[where cmp = compare, OF c k m irrefl asym] obtain p' updated new where
    "raiseDeploymentTargets compare sample_project = Inr (p', updated)"
    "deploymentTarget (objects p' ! 2) = Some new"
    "compare new IOS_DEPLOYMENT_TARGET \<noteq> - 1"
    "(case deploymentTarget (objects sample_project ! 2) of
              None \<Rightarrow> new = IOS_DEPLOYMENT_TARGET
            | Some old \<Rightarrow>
                if old = [] then new = IOS_DEPLOYMENT_TARGET
                else (if compare old IOS_DEPLOYMENT_TARGET = - 1 then new = IOS_DEPLOYMENT_TARGET
                      else new = old) \<and>
                     compare new old \<noteq> - 1)"
    by blast
  with c k m d b show ?thesis by simp
qed



text \<open>
  C4. A key is a comment key exactly when it ends in \<open>_comment\<close>. The filtered copy has
  no entry under a comment key and every other entry of the section with its value; the
  loop runs over the keys of the copy, none of which is a comment key. When the patch
  returns, the section itself (keys and values, comment entries included) is unchanged,
  and so is every object of the store that no non-comment key refers to.
\<close>

theorem comment_entries_untouched:
  "(COMMENT_KEY k \<longleftrightarrow> (\<exists>s. k = s @ ''_comment'')) \<and>
   map_of (nonComments obj) k = (if COMMENT_KEY k then None else map_of obj k) \<and>
   (\<forall>k' \<in> set (map fst (nonComments obj)). \<not> COMMENT_KEY k') \<and>
   (raiseDeploymentTargets cmp p = Inr (p', updated) \<longrightarrow>
      XCBuildConfiguration_section p' = XCBuildConfiguration_section p \<and>
      length (objects p') = length (objects p) \<and>
      (\<forall>a < length (objects p). a \<notin> configured p \<longrightarrow> objects p' ! a = objects p ! a))"
proof (intro conjI impI)
  show "COMMENT_KEY k \<longleftrightarrow> (\<exists>s. k = s @ ''_comment'')"
    by (simp add: COMMENT_KEY_def suffix_def)
  show "map_of (nonComments obj) k = (if COMMENT_KEY k then None else map_of obj k)"
    by (rule map_of_nonComments)
  show "\<forall>k' \<in> set (map fst (nonComments obj)). \<not> COMMENT_KEY k'"
    unfolding keys_nonComments by simp
next
  assume run: "raiseDeploymentTargets cmp p = Inr (p', updated)"
  from raiseDeploymentTargets_result[OF raiseDeploymentTargets_Inr_visitable[OF run], of cmp]
  obtain h' where
    "raiseDeploymentTargets cmp p =
       Inr (p\<lparr>objects := h'\<rparr>, \<exists>a \<in> configured p. needsRaise cmp (objects p ! a))"
    "length h' = length (objects p)"
    "\<forall>a < length (objects p).
        h' ! a = (if a \<in> configured p then raised cmp (objects p ! a) else objects p ! a)"
    by blast
  with run have p': "p' = p\<lparr>objects := h'\<rparr>" and len: "length h' = length (objects p)"
    and nth: "\<forall>a < length (objects p).
        h' ! a = (if a \<in> configured p then raised cmp (objects p ! a) else objects p ! a)"
    by auto
  show "XCBuildConfiguration_section p' = XCBuildConfiguration_section p" using p' by simp
  show "length (objects p') = length (objects p)" using p' len by simp
  show "\<forall>a < length (objects p). a \<notin> configured p \<longrightarrow> objects p' ! a = objects p ! a"
    using p' nth by simp
qed

theorem comment_entries_untouched_witness:
  "COMMENT_KEY ''1D60_comment'' \<and>
   map_of (XCBuildConfiguration_section sample_project) ''1D60_comment'' = Some (Str ''Debug'') \<and>
   map_of (nonComments (XCBuildConfiguration_section sample_project)) ''1D60_comment'' = None \<and>
   map_of (nonComments (XCBuildConfiguration_section sample_project)) ''1D60'' = Some (Ref 0) \<and>
   ''1D60'' \<in> set (map fst (nonComments (XCBuildConfiguration_section sample_project))) \<and>
   (\<exists>p' updated.
      raiseDeploymentTargets compare sample_project = Inr (p', updated) \<and>
      map_of (XCBuildConfiguration_section p') ''1D60_comment'' = Some (Str ''Debug''))"
proof -
  let ?sec = "XCBuildConfiguration_section sample_project"
  have ck: "COMMENT_KEY ''1D60_comment''" and nk: "\<not> COMMENT_KEY ''1D60''"
    by (simp_all add: COMMENT_KEY_def suffix_to_prefix)
  have m1: "map_of ?sec ''1D60_comment'' = Some (Str ''Debug'')"
    and m2: "map_of ?sec ''1D60'' = Some (Ref 0)"
    by (simp_all add: sample_project_def)
  have in_keys: "''1D60'' \<in> set (map fst (nonComments ?sec))"
    unfolding keys_nonComments using nk m2 by simp
  from raiseDeploymentTargets_result[OF configurable_visitable[OF sample_project_configurable], of compare]
  obtain p' updated where run: "raiseDeploymentTargets compare sample_project = Inr (p', updated)"
    by blast
  from comment_entries_untouched[of "''1D60_comment''" ?sec compare sample_project p' updated]
    comment_entries_untouched[of "''1D60''" ?sec compare sample_project p' updated]
    ck nk m1 m2 in_keys run
  show ?thesis by auto
qed

text \<open>
  C9. The patch is idempotent. A second run on the result of the first returns that same
  project, whatever the comparator; and it marks no record as updated as soon as the
  comparator does not put the threshold strictly below itself.
\<close>

theorem patch_idempotent:
  assumes "configurable p"
  shows "\<exists>p1 updated1 updated2.
           raiseDeploymentTargets cmp p = Inr (p1, updated1) \<and>
           raiseDeploymentTargets cmp p1 = Inr (p1, updated2) \<and>
           (cmp IOS_DEPLOYMENT_TARGET IOS_DEPLOYMENT_TARGET \<noteq> - 1 \<longrightarrow> \<not> updated2)"
proof -
  let ?sec = "XCBuildConfiguration_section p"
  let ?ks = "map fst (nonComments ?sec)"
  have vis: "visitable ?ks (nonComments ?sec) (objects p)"
    using assms by (rule configurable_visitable)
  from raiseDeploymentTargets_result[OF vis, of cmp] obtain h1 where
    run1: "raiseDeploymentTargets cmp p =
             Inr (p\<lparr>objects := h1\<rparr>, \<exists>a \<in> configured p. needsRaise cmp (objects p ! a))" and
    len1: "length h1 = length (objects p)" and
    nth1: "\<forall>a < length (objects p).
             h1 ! a = (if a \<in> configured p then raised cmp (objects p ! a) else objects p ! a)"
    by blast
  let ?p1 = "p\<lparr>objects := h1\<rparr>"
  have cfg1: "configured ?p1 = configured p" by (simp add: configured_def)
  have inb: "\<And>a. a \<in> configured p \<Longrightarrow> a < length (objects p) \<and> buildSettings (objects p ! a) \<noteq> None"
    using configured_in_store[OF assms] by (auto simp: configured_def)
  have vis1: "visitable (map fst (nonComments (XCBuildConfiguration_section ?p1)))
                (nonComments (XCBuildConfiguration_section ?p1)) (objects ?p1)"
    unfolding visitable_def
  proof
    fix k assume "k \<in> set (map fst (nonComments (XCBuildConfiguration_section ?p1)))"
    then have "k \<in> set ?ks" by simp
    with vis obtain a where
      a: "map_of (nonComments ?sec) k = Some (Ref a)" "a < length (objects p)"
         "buildSettings (objects p ! a) \<noteq> None"
      unfolding visitable_def by blast
    have "buildSettings (h1 ! a) \<noteq> None"
      using nth1 a by (auto simp: raised_def split: option.splits)
    with a len1 show "\<exists>a. map_of (nonComments (XCBuildConfiguration_section ?p1)) k = Some (Ref a) \<and>
        a < length (objects ?p1) \<and> buildSettings (objects ?p1 ! a) \<noteq> None"
      by auto
  qed
  from raiseDeploymentTargets_result[OF vis1, of cmp] obtain h2 where
    run2: "raiseDeploymentTargets cmp ?p1 =
             Inr (?p1\<lparr>objects := h2\<rparr>, \<exists>a \<in> configured ?p1. needsRaise cmp (objects ?p1 ! a))" and
    len2: "length h2 = length (objects ?p1)" and
    nth2: "\<forall>a < length (objects ?p1).
             h2 ! a = (if a \<in> configured ?p1 then raised cmp (objects ?p1 ! a) else objects ?p1 ! a)"
    by blast
  have "h2 = h1"
  proof (rule nth_equalityI)
    show "length h2 = length h1" using len2 by simp
  next
    fix a assume "a < length h2"
    then have al: "a < length (objects p)" using len2 len1 by simp
    show "h2 ! a = h1 ! a"
    proof (cases "a \<in> configured p")
      case True
      then show ?thesis using nth1 nth2 al len1 cfg1 by (simp add: raised_idem)
    next
      case False
      then show ?thesis using nth2 al len1 cfg1 by simp
    qed
  qed
  then have same: "?p1\<lparr>objects := h2\<rparr> = ?p1" by simp
  have flag: "cmp IOS_DEPLOYMENT_TARGET IOS_DEPLOYMENT_TARGET \<noteq> - 1 \<Longrightarrow>
              \<not> (\<exists>a \<in> configured ?p1. needsRaise cmp (objects ?p1 ! a))"
  proof -
    assume t: "cmp IOS_DEPLOYMENT_TARGET IOS_DEPLOYMENT_TARGET \<noteq> - 1"
    have "\<not> needsRaise cmp (h1 ! a)" if "a \<in> configured p" for a
    proof -
      from inb[OF that] nth1 that have h1a: "h1 ! a = raised cmp (objects p ! a)" by simp
      from inb[OF that] have "deploymentTarget (raised cmp (objects p ! a)) =
          (if needsRaise cmp (objects p ! a) then Some IOS_DEPLOYMENT_TARGET
           else deploymentTarget (objects p ! a))"
        by (simp add: deploymentTarget_raised)
      with t h1a show ?thesis
        by (auto simp: needsRaise_def below_def IOS_DEPLOYMENT_TARGET_def split: if_splits)
    qed
    then show ?thesis using cfg1 by simp
  qed
  from run2 same have run2': "raiseDeploymentTargets cmp ?p1 =
      Inr (?p1, \<exists>a \<in> configured ?p1. needsRaise cmp (objects ?p1 ! a))"
    by (simp only:)
  show ?thesis
    by (intro exI conjI impI) (rule run1, rule run2', erule flag)
qed

theorem patch_idempotent_witness:
  "configurable sample_project \<and>
   compare IOS_DEPLOYMENT_TARGET IOS_DEPLOYMENT_TARGET \<noteq> - 1 \<and>
   (\<exists>p1 updated1.
      raiseDeploymentTargets compare sample_project = Inr (p1, updated1) \<and>
      raiseDeploymentTargets compare p1 = Inr (p1, False))"
proof -
  have c: "configurable sample_project" by (rule sample_project_configurable)
  have t: "compare IOS_DEPLOYMENT_TARGET IOS_DEPLOYMENT_TARGET \<noteq> - 1"
    by (simp add: compare_refl)
  from patch_idempotent[OF c, of compare] t c show ?thesis by auto
qed

text \<open>
  C10. The threshold is the constant string \<open>8.0\<close>, not \<open>9.0\<close> as the header comment
  of the file announces: every record that the patch updates, because its setting is
  unset or below the threshold, ends with exactly \<open>8.0\<close>, and the run is marked as
  updated.
\<close>

theorem threshold_is_8_0:
  assumes "configurable p"
    and "\<not> COMMENT_KEY k"
    and "map_of (XCBuildConfiguration_section p) k = Some (Ref a)"
    and "needsRaise cmp (objects p ! a)"
  shows "IOS_DEPLOYMENT_TARGET = ''8.0'' \<and> IOS_DEPLOYMENT_TARGET \<noteq> ''9.0'' \<and>
         (\<exists>p'. raiseDeploymentTargets cmp p = Inr (p', True) \<and>
               deploymentTarget (objects p' ! a) = Some ''8.0'')"
proof -
  note a = configured_in_store[OF assms(1-3)]
  from raiseDeploymentTargets_result[OF configurable_visitable[OF assms(1)], of cmp]
  obtain h' where
    run: "raiseDeploymentTargets cmp p =
            Inr (p\<lparr>objects := h'\<rparr>, \<exists>a \<in> configured p. needsRaise cmp (objects p ! a))" and
    nth: "\<forall>a < length (objects p).
            h' ! a = (if a \<in> configured p then raised cmp (objects p ! a) else objects p ! a)"
    by blast
  have flag: "\<exists>a \<in> configured p. needsRaise cmp (objects p ! a)"
    using a(1) assms(4) by blast
  from nth a have "h' ! a = raised cmp (objects p ! a)" by simp
  then have "deploymentTarget (h' ! a) = Some ''8.0''"
    using a(3) assms(4) by (simp add: deploymentTarget_raised IOS_DEPLOYMENT_TARGET_def)
  with run flag show ?thesis by (simp add: IOS_DEPLOYMENT_TARGET_def)
qed

theorem threshold_is_8_0_witness:
  "configurable sample_project \<and> \<not> COMMENT_KEY ''1D61'' \<and>
   map_of (XCBuildConfiguration_section sample_project) ''1D61'' = Some (Ref 1) \<and>
   deploymentTarget (objects sample_project ! 1) = None \<and>
   (\<exists>p'. raiseDeploymentTargets compare sample_project = Inr (p', True) \<and>
         deploymentTarget (objects p' ! 1) = Some ''8.0'')"
proof -
  have c: "configurable sample_project" by (rule sample_project_configurable)
  have k: "\<not> COMMENT_KEY ''1D61''" by (simp add: COMMENT_KEY_def suffix_to_prefix)
  have m: "map_of (XCBuildConfiguration_section sample_project) ''1D61'' = Some (Ref 1)"
    by (simp add: sample_project_def)
  have d: "deploymentTarget (objects sample_project ! 1) = None"
    by (simp add: sample_project_def deploymentTarget_def config_with_def settings_none_def
          IPHONEOS_DEPLOYMENT_TARGET_def)
  then have n: "needsRaise compare (objects sample_project ! 1)"
    by (simp add: needsRaise_def)
  from threshold_is_8_0[OF c k m n]
  have "\<exists>p'. raiseDeploymentTargets compare sample_project = Inr (p', True) \<and>
         deploymentTarget (objects p' ! 1) = Some ''8.0''"
    by blast
  with c k m d show ?thesis by blast
qed

text \<open>
  C5. When the listing of the searched directory has no entry that ends in
  \<open>.xcodeproj\<close>, the hook throws the error whose message is
  \<open>Could not find an .xcodeproj folder in: \<close> followed by the path of that directory, and
  the disk and the record of reads, writes and console lines are as before.
\<close>

theorem no_bundle_throws_notFound:
  assumes "readdirSync w (iosFolder_of e ctx w) = Inr data"
    and "\<forall>folder \<in> set data. \<not> suffix ''.xcodeproj'' folder"
  shows "enableAssociativeDomainsCapability e ctx w =
           (Inl (Error (''Could not find an .xcodeproj folder in: '' @ iosFolder_of e ctx w)), w)"
  using assms
  by (simp add: enableAssociativeDomainsCapability_def Let_def findProject_nomatch notFound_def)

theorem no_bundle_throws_notFound_witness:
  "readdirSync android_only_world (iosFolder_of sample_env sample_context android_only_world) =
     Inr [''config.xml'', ''www'', ''platforms''] \<and>
   filter (suffix ''.xcodeproj'') [''config.xml'', ''www'', ''platforms''] = [] \<and>
   enableAssociativeDomainsCapability sample_env sample_context android_only_world =
     (Inl (Error ''Could not find an .xcodeproj folder in: /app''), android_only_world)"
proof -
  have r: "readdirSync android_only_world (iosFolder_of sample_env sample_context android_only_world) =
     Inr [''config.xml'', ''www'', ''platforms'']"
    unfolding android_iosFolder by (simp add: readdirSync_def android_only_world_def)
  have n: "\<forall>folder \<in> set [''config.xml'', ''www'', ''platforms'']. \<not> suffix ''.xcodeproj'' folder"
    by (simp add: suffix_to_prefix)
  have f: "filter (suffix ''.xcodeproj'') [''config.xml'', ''www'', ''platforms''] = []"
    by (simp add: suffix_to_prefix)
  from no_bundle_throws_notFound[OF r n] r f show ?thesis
    by (simp add: android_iosFolder)
qed

text \<open>
  C6, as stated: when \<open>platforms/ios/\<close> does not exist, the hook returns early without
  error. It does not: on a project root without the platform folder and without a bundle
  the hook throws.
\<close>

theorem missing_platform_folder_counterexample:
  "\<not> existsSync android_only_world
       (path_join sample_env (projectRoot sample_context) ''platforms/ios/'') \<and>
   enableAssociativeDomainsCapability sample_env sample_context android_only_world =
     (Inl (Error ''Could not find an .xcodeproj folder in: /app''), android_only_world)"
proof -
  have ex: "\<not> existsSync android_only_world
       (path_join sample_env (projectRoot sample_context) ''platforms/ios/'')"
    by (simp add: sample_env_def sample_context_def android_only_world_def
        existsSync_def simple_join_def)
  have r: "readdirSync android_only_world ''/app'' = Inr [''config.xml'', ''www'', ''platforms'']"
    by (simp add: readdirSync_def android_only_world_def)
  have f: "findProject (path_join sample_env) ''/app'' [''config.xml'', ''www'', ''platforms'']
             = (None, None)"
    by (simp add: findProject_def suffix_to_prefix)
  show ?thesis
    using ex r f
    by (simp add: enableAssociativeDomainsCapability_def android_iosFolder notFound_def)
qed

text \<open>
  C6, amended. When \<open>platforms/ios/\<close> does not exist, the hook searches the project root
  itself. If the listing of the root has no entry ending in \<open>.xcodeproj\<close>, the hook throws
  the not-found error naming the root and the disk and the record of reads and writes are
  as before. And whenever the hook returns without error, its last action was the write
  of the descriptor of a bundle listed in the root: there is no silent return.
\<close>

theorem missing_platform_folder_searches_root:
  assumes "\<not> existsSync w (path_join e (projectRoot ctx) ''platforms/ios/'')"
  shows "iosFolder_of e ctx w = projectRoot ctx \<and>
         (\<forall>data. readdirSync w (projectRoot ctx) = Inr data \<and>
                 (\<forall>folder \<in> set data. \<not> suffix ''.xcodeproj'' folder) \<longrightarrow>
            enableAssociativeDomainsCapability e ctx w =
              (Inl (Error (''Could not find an .xcodeproj folder in: '' @ projectRoot ctx)), w)) \<and>
         (\<forall>w'. enableAssociativeDomainsCapability e ctx w = (Inr (), w') \<longrightarrow>
            (\<exists>data folder txt.
               readdirSync w (projectRoot ctx) = Inr data \<and>
               folder \<in> set data \<and> suffix ''.xcodeproj'' folder \<and>
               events w' \<noteq> [] \<and>
               last (events w') =
                 WriteFile (path_join e (path_join e (projectRoot ctx) folder) ''project.pbxproj'')
                   txt))"
proof -
  have d: "iosFolder_of e ctx w = projectRoot ctx"
    using assms by (simp add: iosFolder_of_def)
  have nf: "enableAssociativeDomainsCapability e ctx w =
              (Inl (Error (''Could not find an .xcodeproj folder in: '' @ projectRoot ctx)), w)"
    if "readdirSync w (projectRoot ctx) = Inr data"
       "\<forall>folder \<in> set data. \<not> suffix ''.xcodeproj'' folder" for data
    using that d
    by (simp add: enableAssociativeDomainsCapability_def Let_def findProject_nomatch notFound_def)
  have wr: "\<exists>data folder txt.
               readdirSync w (projectRoot ctx) = Inr data \<and>
               folder \<in> set data \<and> suffix ''.xcodeproj'' folder \<and>
               events w' \<noteq> [] \<and>
               last (events w') =
                 WriteFile (path_join e (path_join e (projectRoot ctx) folder) ''project.pbxproj'')
                   txt"
    if "enableAssociativeDomainsCapability e ctx w = (Inr (), w')" for w'
    using hook_Inr_writes[OF that] unfolding d .
  from d nf wr show ?thesis by blast
qed

theorem missing_platform_folder_searches_root_witness:
  "\<not> existsSync bundle_in_root_world
       (path_join sample_env (projectRoot sample_context) ''platforms/ios/'') \<and>
   iosFolder_of sample_env sample_context bundle_in_root_world = ''/app'' \<and>
   (\<exists>w'. enableAssociativeDomainsCapability sample_env sample_context bundle_in_root_world =
            (Inr (), w') \<and>
         (\<exists>folder txt. folder \<in> set [''MyApp.xcodeproj'', ''www''] \<and>
            last (events w') =
              WriteFile (path_join sample_env (path_join sample_env ''/app'' folder)
                           ''project.pbxproj'') txt))"
proof -
  have ex: "\<not> existsSync bundle_in_root_world
       (path_join sample_env (projectRoot sample_context) ''platforms/ios/'')"
    by (simp add: sample_env_def sample_context_def bundle_in_root_world_def
        existsSync_def simple_join_def)
  have root: "projectRoot sample_context = ''/app''" by (simp add: sample_context_def)
  have r: "readdirSync bundle_in_root_world ''/app'' = Inr [''MyApp.xcodeproj'', ''www'']"
    by (simp add: readdirSync_def bundle_in_root_world_def)
  have de: "directoryExists bundle_in_root_world ''/app'' = Inr True"
    using r by (rule readdir_directoryExists)
  have f: "findProject (path_join sample_env) ''/app'' [''MyApp.xcodeproj'', ''www'']
             = (Some ''/app/MyApp.xcodeproj'', Some ''MyApp'')"
    by (simp add: findProject_def suffix_to_prefix basename_def sample_env_def simple_join_def)
  have vc: "version_compare sample_env = compare" by (simp add: sample_env_def)
  have pj: "path_join sample_env ''/app/MyApp.xcodeproj'' ''project.pbxproj'' =
            ''/app/MyApp.xcodeproj/project.pbxproj''"
    by (simp add: sample_env_def simple_join_def)
  have ld: "loadProject sample_env sample_context
              (path_join sample_env ''/app/MyApp.xcodeproj'' ''project.pbxproj'') bundle_in_root_world =
            (Inr settled_project,
             bundle_in_root_world\<lparr>events := [ReadFile ''/app/MyApp.xcodeproj/project.pbxproj'']\<rparr>)"
    unfolding pj
    by (simp add: loadProject_def sample_context_def bundle_in_root_world_def sample_env_def)
  have run: "raiseDeploymentTargets (version_compare sample_env) settled_project =
               Inr (settled_project, False)"
    unfolding vc using settled_project_configurable settled_project_settled
    by (rule raiseDeploymentTargets_settled)
  have act: "\<exists>w'. activateAssociativeDomains sample_env sample_context ''/app/MyApp.xcodeproj''
               bundle_in_root_world = (Inr (), w')"
    using ld run by (simp add: activateAssociativeDomains_def)
  from missing_platform_folder_searches_root[OF ex] have
    d: "iosFolder_of sample_env sample_context bundle_in_root_world = ''/app''" and
    w: "\<forall>w'. enableAssociativeDomainsCapability sample_env sample_context bundle_in_root_world =
            (Inr (), w') \<longrightarrow>
          (\<exists>data folder txt.
             readdirSync bundle_in_root_world ''/app'' = Inr data \<and>
             folder \<in> set data \<and> suffix ''.xcodeproj'' folder \<and>
             events w' \<noteq> [] \<and>
             last (events w') =
               WriteFile (path_join sample_env (path_join sample_env ''/app'' folder)
                            ''project.pbxproj'') txt)"
    unfolding root by blast+
  from act obtain w' where
    hook: "enableAssociativeDomainsCapability sample_env sample_context bundle_in_root_world =
             (Inr (), w')"
    using d r f de by (auto simp: enableAssociativeDomainsCapability_def)
  from w[rule_format, OF hook] r obtain folder content where
    "folder \<in> set [''MyApp.xcodeproj'', ''www'']"
    "last (events w') =
       WriteFile (path_join sample_env (path_join sample_env ''/app'' folder) ''project.pbxproj'')
         content"
    by auto
  with ex d hook show ?thesis by blast
qed

text \<open>
  C7. When the listing has entries ending in \<open>.xcodeproj\<close>, the loop of lines 34 to 41
  ends with \<open>projFolder\<close> the path of the last such entry in listing order, joined to the
  searched directory, and \<open>projName\<close> that entry's name without the suffix. The entries of
  a listing contain no separator.
\<close>

theorem last_xcodeproj_entry_wins:
  assumes "filter (suffix ''.xcodeproj'') data \<noteq> []"
    and "\<forall>folder \<in> set data. CHR ''/'' \<notin> set folder"
  shows "\<exists>stem. last (filter (suffix ''.xcodeproj'') data) = stem @ ''.xcodeproj'' \<and>
           findProject join iosFolder data =
             (Some (join iosFolder (stem @ ''.xcodeproj'')), Some stem)"
proof -
  let ?l = "last (filter (suffix ''.xcodeproj'') data)"
  from assms(1) have "?l \<in> set (filter (suffix ''.xcodeproj'') data)" by (rule last_in_set)
  then have mem: "?l \<in> set data" and suf: "suffix ''.xcodeproj'' ?l" by auto
  from suf obtain stem where stem: "?l = stem @ ''.xcodeproj''" by (auto simp: suffix_def)
  from mem assms(2) stem have "CHR ''/'' \<notin> set stem" by (metis Un_iff set_append)
  then have b: "basename (stem @ ''.xcodeproj'') ''.xcodeproj'' = stem"
    by (intro basename_entry) simp_all
  from assms(1) have ne: "data \<noteq> []" by auto
  have "findProject join iosFolder data = (Some (join iosFolder ?l), Some (basename ?l ''.xcodeproj''))"
    using ne forEach_folder_last[OF assms(1)] by (simp add: findProject_def)
  with stem b show ?thesis by simp
qed

theorem last_xcodeproj_entry_wins_witness:
  "filter (suffix ''.xcodeproj'') [''Old.xcodeproj'', ''MyApp'', ''MyApp.xcodeproj'', ''cordova''] =
     [''Old.xcodeproj'', ''MyApp.xcodeproj''] \<and>
   last (filter (suffix ''.xcodeproj'') [''Old.xcodeproj'', ''MyApp'', ''MyApp.xcodeproj'', ''cordova''])
     = ''MyApp.xcodeproj'' \<and>
   findProject simple_join ''/app/platforms/ios/'' [''Old.xcodeproj'', ''MyApp'', ''MyApp.xcodeproj'', ''cordova'']
     = (Some ''/app/platforms/ios/MyApp.xcodeproj'', Some ''MyApp'')"
proof -
  let ?data = "[''Old.xcodeproj'', ''MyApp'', ''MyApp.xcodeproj'', ''cordova'']"
  have f: "filter (suffix ''.xcodeproj'') ?data = [''Old.xcodeproj'', ''MyApp.xcodeproj'']"
    by (simp add: suffix_to_prefix)
  then have ne: "filter (suffix ''.xcodeproj'') ?data \<noteq> []" by simp
  have ns: "\<forall>folder \<in> set ?data. CHR ''/'' \<notin> set folder" by simp
  from last_xcodeproj_entry_wins[OF ne ns, of simple_join "''/app/platforms/ios/''"]
  obtain stem where
    "last (filter (suffix ''.xcodeproj'') ?data) = stem @ ''.xcodeproj''"
    "findProject simple_join ''/app/platforms/ios/'' ?data =
       (Some (simple_join ''/app/platforms/ios/'' (stem @ ''.xcodeproj'')), Some stem)"
    by blast
  moreover from this(1) f have "stem = ''MyApp''" by simp
  ultimately show ?thesis using f by (simp add: simple_join_def)
qed

text \<open>
  C8. When every non-comment record of the loaded project already holds a setting that
  is set and not below the threshold, the patch changes nothing and marks nothing, no
  console line is written, and the descriptor is still serialized and written to its
  path: the write is the one event added after the load.
\<close>

theorem settled_project_still_written:
  assumes "loadProject e ctx (path_join e projFolder ''project.pbxproj'') w = (Inr p, w1)"
    and "configurable p"
    and "\<forall>a \<in> configured p. \<not> needsRaise (version_compare e) (objects p ! a)"
  shows "raiseDeploymentTargets (version_compare e) p = Inr (p, False) \<and>
         (\<exists>w'. activateAssociativeDomains e ctx projFolder w = (Inr (), w') \<and>
               events w' = events w1 @
                 [WriteFile (path_join e projFolder ''project.pbxproj'') (xcode_writeSync e p)] \<and>
               map_of (files w') (path_join e projFolder ''project.pbxproj'') =
                 Some (File (xcode_writeSync e p)))"
proof -
  have run: "raiseDeploymentTargets (version_compare e) p = Inr (p, False)"
    using assms(2,3) by (rule raiseDeploymentTargets_settled)
  let ?path = "path_join e projFolder ''project.pbxproj''"
  have "activateAssociativeDomains e ctx projFolder w =
          (Inr (), writeFileSync ?path (xcode_writeSync e p) w1)"
    using assms(1) run by (simp add: activateAssociativeDomains_def)
  moreover have "events (writeFileSync ?path (xcode_writeSync e p) w1) =
      events w1 @ [WriteFile ?path (xcode_writeSync e p)]"
    by (simp add: writeFileSync_def)
  moreover have "map_of (files (writeFileSync ?path (xcode_writeSync e p) w1)) ?path =
      Some (File (xcode_writeSync e p))"
    by (simp add: writeFileSync_def update_conv')
  ultimately show ?thesis using run by blast
qed

theorem settled_project_still_written_witness:
  "loadProject sample_env sample_context
     (path_join sample_env ''/app/platforms/ios/MyApp.xcodeproj'' ''project.pbxproj'') ios_world =
     (Inr settled_project,
      ios_world\<lparr>events := [ReadFile ''/app/platforms/ios/MyApp.xcodeproj/project.pbxproj'']\<rparr>) \<and>
   configurable settled_project \<and>
   deploymentTarget (objects settled_project ! 0) = Some ''10.0'' \<and>
   compare ''10.0'' IOS_DEPLOYMENT_TARGET = 1 \<and>
   raiseDeploymentTargets compare settled_project = Inr (settled_project, False) \<and>
   (\<exists>w'. activateAssociativeDomains sample_env sample_context
            ''/app/platforms/ios/MyApp.xcodeproj'' ios_world = (Inr (), w') \<and>
         events w' =
           [ReadFile ''/app/platforms/ios/MyApp.xcodeproj/project.pbxproj'',
            WriteFile ''/app/platforms/ios/MyApp.xcodeproj/project.pbxproj'' ''1D601D60_comment''])"
proof -
  have vc: "version_compare sample_env = compare" by (simp add: sample_env_def)
  have pj: "path_join sample_env ''/app/platforms/ios/MyApp.xcodeproj'' ''project.pbxproj'' =
            ''/app/platforms/ios/MyApp.xcodeproj/project.pbxproj''"
    by (simp add: sample_env_def simple_join_def)
  have ld: "loadProject sample_env sample_context
     (path_join sample_env ''/app/platforms/ios/MyApp.xcodeproj'' ''project.pbxproj'') ios_world =
     (Inr settled_project,
      ios_world\<lparr>events := [ReadFile ''/app/platforms/ios/MyApp.xcodeproj/project.pbxproj'']\<rparr>)"
    unfolding pj
    by (simp add: loadProject_def sample_context_def ios_world_def sample_env_def)
  have c: "configurable settled_project" by (rule settled_project_configurable)
  have s: "\<forall>a \<in> configured settled_project.
      \<not> needsRaise (version_compare sample_env) (objects settled_project ! a)"
    unfolding vc by (rule settled_project_settled)
  have ws: "xcode_writeSync sample_env settled_project = ''1D601D60_comment''"
    by (simp add: sample_env_def settled_project_def)
  from settled_project_still_written[OF ld c s]
  have run: "raiseDeploymentTargets compare settled_project = Inr (settled_project, False)"
    and "\<exists>w'. activateAssociativeDomains sample_env sample_context
            ''/app/platforms/ios/MyApp.xcodeproj'' ios_world = (Inr (), w') \<and>
         events w' =
           [ReadFile ''/app/platforms/ios/MyApp.xcodeproj/project.pbxproj'',
            WriteFile ''/app/platforms/ios/MyApp.xcodeproj/project.pbxproj'' ''1D601D60_comment'']"
    unfolding pj vc ws by auto
  moreover have "deploymentTarget (objects settled_project ! 0) = Some ''10.0''"
    by (simp add: settled_project_def deploymentTarget_def config_with_def settings_10_0_def
          IPHONEOS_DEPLOYMENT_TARGET_def)
  moreover have "compare ''10.0'' IOS_DEPLOYMENT_TARGET = 1"
    by (simp add: compare_def digit_def IOS_DEPLOYMENT_TARGET_def)
  ultimately show ?thesis using ld c by blast
qed

end
